theory Spec2Isabelle
  imports Main "HOL-Library.Sublist" "HOL-Library.AList"
begin

section \<open>JavaScript values and built-ins used by the plugin\<close>

text \<open>
  Strings are \<open>string\<close> (lists of 8-bit characters); the line terminators a regular
  expression's \<open>.\<close> refuses are LF and CR (U+2028 and U+2029 are outside the type).
  A thrown exception is a value of \<open>error\<close>, returned as \<open>Inl\<close>.
\<close>

datatype error = TypeError | ExternalFailure

text \<open>
  A property value: \<open>undefined\<close>, a string, a function (carrying the text that
  \<open>String(f)\<close> yields) or a nested object literal. An object read by property name
  is a finite map from names to values; a missing key reads as \<open>undefined\<close>. Inherited
  (prototype) properties are not modelled.
\<close>

datatype jsval = Undefined | Str string | Fn string | Object "(string \<times> jsval) list"

type_synonym obj = "string \<rightharpoonup> jsval"

definition read_prop :: "obj \<Rightarrow> string \<Rightarrow> jsval" where
  "read_prop ob k = (case ob k of None \<Rightarrow> Undefined | Some v \<Rightarrow> v)"

fun to_String :: "jsval \<Rightarrow> string" where
  "to_String Undefined = ''undefined''"
| "to_String (Str s) = s"
| "to_String (Fn src) = src"
| "to_String (Object kvs) = ''[object Object]''"

fun truthy :: "jsval \<Rightarrow> bool" where
  "truthy Undefined = False"
| "truthy (Str s) = (s \<noteq> [])"
| "truthy (Fn src) = True"
| "truthy (Object kvs) = True"

text \<open>\<open>{...a, ...b}\<close>: the keys of \<open>b\<close> override those of \<open>a\<close>; spreading \<open>undefined\<close> adds nothing.\<close>

definition spread :: "obj option \<Rightarrow> obj option \<Rightarrow> obj" where
  "spread a b =
     (case a of None \<Rightarrow> Map.empty | Some x \<Rightarrow> x) ++ (case b of None \<Rightarrow> Map.empty | Some y \<Rightarrow> y)"

definition line_terminator :: "char \<Rightarrow> bool" where
  "line_terminator c = (c = CHR 0x0A \<or> c = CHR 0x0D)"

text \<open>\<open>s.endsWith(t)\<close> and \<open>s.includes(t)\<close>.\<close>

definition endsWith :: "string \<Rightarrow> string \<Rightarrow> bool" where
  "endsWith s t = suffix t s"

fun includes_str :: "string \<Rightarrow> string \<Rightarrow> bool" where
  "includes_str [] t = (t = [])"
| "includes_str (c # cs) t = (prefix t (c # cs) \<or> includes_str cs t)"

text \<open>
  \<open>s.split(sep)\<close> for a string separator: cut at the occurrences of \<open>sep\<close> found
  scanning from the left; with the empty separator, one piece per character.
\<close>

function split_from :: "string \<Rightarrow> string \<Rightarrow> string \<Rightarrow> string list" where
  "split_from sep acc [] = [rev acc]"
| "split_from sep acc (c # cs) =
     (if sep \<noteq> [] \<and> prefix sep (c # cs)
      then rev acc # split_from sep [] (drop (length sep) (c # cs))
      else split_from sep (c # acc) cs)"
  by pat_completeness auto
termination
  by (relation "measure (\<lambda>(sep, acc, s). length s)") auto

definition split_str :: "string \<Rightarrow> string \<Rightarrow> string list" where
  "split_str s sep = (if sep = [] then map (\<lambda>c. [c]) s else split_from sep [] s)"

text \<open>\<open>arr[i]\<close> used in a string concatenation: out of range reads \<open>undefined\<close>.\<close>

definition index_text :: "string list \<Rightarrow> int \<Rightarrow> string" where
  "index_text arr i = (if 0 \<le> i \<and> i < int (length arr) then arr ! nat i else ''undefined'')"

text \<open>\<open>s.replace(/\\/g, '/')\<close> and \<open>s.replace(/\//g, '')\<close>.\<close>

definition backslashes_to_slashes :: "string \<Rightarrow> string" where
  "backslashes_to_slashes s = map (\<lambda>c. if c = CHR 0x5C then CHR ''/'' else c) s"

definition remove_slashes :: "string \<Rightarrow> string" where
  "remove_slashes s = filter (\<lambda>c. c \<noteq> CHR ''/'') s"

text \<open>
  \<open>s.replace(/\.js/g, '.js?' + tok)\<close>: every occurrence of the three characters
  \<open>.js\<close>, from the left, is followed by \<open>?tok\<close>.
\<close>

fun replace_js :: "string \<Rightarrow> string \<Rightarrow> string" where
  "replace_js tok [] = []"
| "replace_js tok (c # cs) =
     (if c = CHR ''.'' \<and> take 2 cs = ''js''
      then ''.js?'' @ tok @ replace_js tok (drop 2 cs)
      else c # replace_js tok cs)"

text \<open>
  \<open>s.replace(/.css/g, '.css?' + tok)\<close>: the dot of the pattern is not escaped, so a
  match is any character but a line terminator followed by \<open>css\<close>, and the whole match
  (that character included) is replaced by \<open>.css?tok\<close>.
\<close>

fun replace_css :: "string \<Rightarrow> string \<Rightarrow> string" where
  "replace_css tok [] = []"
| "replace_css tok (c # cs) =
     (if \<not> line_terminator c \<and> take 3 cs = ''css''
      then ''.css?'' @ tok @ replace_css tok (drop 3 cs)
      else c # replace_css tok cs)"

section \<open>Plugin options\<close>

text \<open>
  The \<open>buildCfg\<close> block. A field the user leaves out is \<open>undefined\<close>, which every use
  in the code treats as the empty string or \<open>false\<close>.
\<close>

record buildCfg =
  moveHtmlTop :: bool
  moveHtmlDirTop :: bool
  buildPrefixName :: string
  htmlHash :: bool
  buildAssetDirName :: string
  buildChunkDirName :: string
  buildEntryDirName :: string
  htmlPrefixSearchValue :: string
  htmlPrefixReplaceValue :: string

text \<open>
  The options object of a plugin instance: \<open>props\<close> holds its own properties that
  the code reads by name, among them the common page fields it has (\<open>template\<close>,
  \<open>title\<close>, \<open>entry\<close>, \<open>filename\<close>, \<open>urlParams\<close>, \<open>inject\<close>); the other fields are the
  properties the code reads directly (\<open>minify\<close> is the truthiness of
  \<open>options.minify\<close>).
\<close>

record options =
  props :: obj
  pages :: "(string \<rightharpoonup> obj) option"
  pagesDir :: string
  buildCfg :: buildCfg
  minify :: bool
  onlyUseEjsAndMinify :: bool

section \<open>The resolved configuration\<close>

text \<open>
  \<open>resolvedConfig.build.rollupOptions.output\<close> holds a reference to an object (or
  \<open>undefined\<close>); the \<open>configResolved\<close> hook keeps the reference it found in \<open>_output\<close>, may store a
  fresh object in the configuration, and writes through \<open>_output\<close> afterwards. So the
  objects live in a store (\<open>heap\<close>, addressed by position) and the configuration holds
  an address. \<open>rollup_input\<close> is \<open>rollupOptions.input\<close>, a name-to-path object in key
  order or \<open>undefined\<close>; \<open>build_assetsDir\<close> is \<open>build.assetsDir\<close> (empty when unset).
  An array of output objects is not modelled.
\<close>

record resolvedConfig =
  build_assetsDir :: string
  root :: string
  rollup_input :: "(string \<times> string) list option"
  rollup_output :: "nat option"
  heap :: "obj list"

section \<open>generateBundle\<close>

record htmlChunk =
  fileName :: string
  source :: string

definition htmlName :: "buildCfg \<Rightarrow> string \<Rightarrow> string" where
  "htmlName cfg fname =
     (let pageName_parts = split_str (backslashes_to_slashes fname) ''/''
      in buildPrefixName cfg @ index_text pageName_parts (int (length pageName_parts) - 2))"

definition hash_tag :: "string \<Rightarrow> string \<Rightarrow> string" where
  "hash_tag tok src = replace_css tok (replace_js tok src)"

text \<open>
  The body of the loop for one HTML chunk. \<open>minifyHtml\<close> (the minifier) and
  \<open>regex_replace\<close> (\<open>s.replace(new RegExp(search, 'g'), repl)\<close>) are collaborators
  and may throw; \<open>mpa\<close> is the value of \<open>isMpa(config)\<close>, \<open>tok\<close> the module's
  \<open>uniqueHash\<close> (16 hexadecimal digits).
\<close>

definition process_chunk ::
  "(string \<Rightarrow> error + string) \<Rightarrow> (string \<Rightarrow> string \<Rightarrow> string \<Rightarrow> error + string) \<Rightarrow>
   options \<Rightarrow> bool \<Rightarrow> string \<Rightarrow> htmlChunk \<Rightarrow> error + htmlChunk" where
  "process_chunk minifyHtml regex_replace opts mpa tok ch =
     (let cfg = buildCfg opts;
          name = htmlName cfg (fileName ch);
          src = (if htmlHash cfg then hash_tag tok (source ch) else source ch)
      in case (if minify opts then minifyHtml src else Inr src) of
           Inl e \<Rightarrow> Inl e
         | Inr src1 \<Rightarrow>
            (case (if htmlPrefixSearchValue cfg \<noteq> []
                   then regex_replace (htmlPrefixSearchValue cfg) (htmlPrefixReplaceValue cfg) src1
                   else Inr src1) of
               Inl e \<Rightarrow> Inl e
             | Inr src2 \<Rightarrow>
                Inr (ch\<lparr>source := src2,
                        fileName :=
                          (if mpa
                           then (if moveHtmlTop cfg then name @ ''.html''
                                 else if moveHtmlDirTop cfg then name @ ''/index.html''
                                 else fileName ch)
                           else ''index.html'')\<rparr>)))"


section \<open>Node's path.dirname (POSIX)\<close>

text \<open>
  The scan of \<open>path.dirname\<close> runs from the last character down to index 1: trailing
  slashes are skipped, then the next slash found is the cut. No cut gives \<open>/\<close> for a
  rooted path and \<open>.\<close> otherwise; a cut at index 1 of a rooted path gives \<open>//\<close>.
\<close>

definition dirname :: "string \<Rightarrow> string" where
  "dirname path =
     (case path of
        [] \<Rightarrow> ''.''
      | c # cs \<Rightarrow>
         (case dropWhile (\<lambda>x. x \<noteq> CHR ''/'') (dropWhile (\<lambda>x. x = CHR ''/'') (rev cs)) of
            [] \<Rightarrow> (if c = CHR ''/'' then ''/'' else ''.'')
          | slash # front \<Rightarrow>
             (if c = CHR ''/'' \<and> front = [] then ''//'' else c # rev front)))"

section \<open>getPageData\<close>

text \<open>
  Modelled from the spec: the helper \<open>last\<close> of the utilities module, which is not
  among the sources: the last element of an array, \<open>undefined\<close> for the empty one.
\<close>

definition last_of :: "'a list \<Rightarrow> 'a option" where
  "last_of arr = (if arr = [] then None else Some (last arr))"

text \<open>
  The helpers \<open>pick\<close> and \<open>isPlainObject\<close> of the utilities module are not among the
  sources either; the functions that call them take them as parameters, and a call
  of a helper may throw. \<open>isEmptyObject\<close> is
  \<open>isPlainObject(val) && Object.getOwnPropertyNames(val).length === 0\<close>; the second
  operand is evaluated only when the first is true, and throws on \<open>undefined\<close>.
\<close>

definition isEmptyObject ::
  "((string \<rightharpoonup> obj) option \<Rightarrow> error + bool) \<Rightarrow> (string \<rightharpoonup> obj) option \<Rightarrow> error + bool" where
  "isEmptyObject isPlainObject val =
     (case isPlainObject val of
        Inl e \<Rightarrow> Inl e
      | Inr b \<Rightarrow>
         (if \<not> b then Inr False
          else (case val of None \<Rightarrow> Inl TypeError | Some m \<Rightarrow> Inr (m = Map.empty))))"

definition commonKeys :: "string list" where
  "commonKeys = [''template'', ''title'', ''entry'', ''filename'', ''urlParams'', ''inject'']"

definition getPageData ::
  "(obj \<Rightarrow> string list \<Rightarrow> error + obj) \<Rightarrow> ((string \<rightharpoonup> obj) option \<Rightarrow> error + bool) \<Rightarrow>
   options \<Rightarrow> string \<Rightarrow> error + obj" where
  "getPageData pick isPlainObject opts pageName =
     (case pick (props opts) commonKeys of
        Inl e \<Rightarrow> Inl e
      | Inr commonOptions \<Rightarrow>
         (case (if pages opts = None then Inr True
                else isEmptyObject isPlainObject (pages opts)) of
            Inl e \<Rightarrow> Inl e
          | Inr isSpa \<Rightarrow>
             (if isSpa then Inr commonOptions
              else Inr (spread (Some commonOptions)
                          (case pages opts of None \<Rightarrow> None | Some ps \<Rightarrow> ps pageName)))))"

section \<open>The dev-server middleware\<close>

text \<open>
  \<open>url.match(new RegExp(pagesDir + '/(.*)/'))?.[1]\<close>, for a \<open>pagesDir\<close> without
  characters that are special in a regular expression (\<open>regex_literal\<close>), so that the
  pattern matches \<open>pagesDir\<close> itself. The match is the leftmost one; the group is greedy
  and stays on one line, so from a start position it takes everything up to the last
  slash of the line.
\<close>

definition regex_literal :: "string \<Rightarrow> bool" where
  "regex_literal p = (\<forall>c \<in> set p. c \<notin> set ''^$.*+?()[]{}|'' \<and> c \<noteq> CHR 0x5C)"

definition greedy_to_slash :: "string \<Rightarrow> string option" where
  "greedy_to_slash s =
     (let line = takeWhile (\<lambda>c. \<not> line_terminator c) s
      in if CHR ''/'' \<in> set line
         then Some (rev (tl (dropWhile (\<lambda>c. c \<noteq> CHR ''/'') (rev line))))
         else None)"

fun match_pagesDir :: "string \<Rightarrow> string \<Rightarrow> string option" where
  "match_pagesDir p [] = None"
| "match_pagesDir p (c # cs) =
     (if prefix (p @ ''/'') (c # cs)
      then (case greedy_to_slash (drop (length p + 1) (c # cs)) of
              Some g \<Rightarrow> Some g
            | None \<Rightarrow> match_pagesDir p cs)
      else match_pagesDir p cs)"

definition dev_pageName :: "string \<Rightarrow> string \<Rightarrow> string" where
  "dev_pageName pgDir originalUrl =
     (let url = pgDir @ originalUrl
      in if url = ''/'' then ''index''
         else (case match_pagesDir pgDir url of
                 None \<Rightarrow> ''index''
               | Some g \<Rightarrow> if g = [] then ''index'' else g))"

text \<open>
  The template path of the middleware. \<open>path_resolve cwd p\<close> stands for
  \<open>path.resolve(process.cwd(), p)\<close>, which throws on a value that is not a string;
  \<open>c\<close> is the resolved configuration the plugin keeps, of which the middleware reads
  \<open>build.rollupOptions.input\<close>, and \<open>mpa\<close> the value of \<open>isMpa(config)\<close>. The result
  \<open>None\<close> is \<open>undefined\<close>.
\<close>

definition resolve ::
  "(string \<Rightarrow> string \<Rightarrow> string) \<Rightarrow> string \<Rightarrow> jsval \<Rightarrow> error + string" where
  "resolve path_resolve cwd p =
     (case p of Str s \<Rightarrow> Inr (path_resolve cwd s) | _ \<Rightarrow> Inl TypeError)"

definition dev_templatePath ::
  "(obj \<Rightarrow> string list \<Rightarrow> error + obj) \<Rightarrow> ((string \<rightharpoonup> obj) option \<Rightarrow> error + bool) \<Rightarrow>
   (string \<Rightarrow> string \<Rightarrow> string) \<Rightarrow> string \<Rightarrow> options \<Rightarrow> bool \<Rightarrow> resolvedConfig \<Rightarrow> string \<Rightarrow>
   error + string option" where
  "dev_templatePath pick isPlainObject path_resolve cwd opts mpa c pageName =
     (case getPageData pick isPlainObject opts pageName of
        Inl e \<Rightarrow> Inl e
      | Inr page \<Rightarrow>
         (let templateOption = read_prop page ''template''
          in if onlyUseEjsAndMinify opts
             then Inr (case rollup_input c of None \<Rightarrow> None | Some inp \<Rightarrow> map_of inp pageName)
             else if truthy templateOption
             then map_sum id Some (resolve path_resolve cwd templateOption)
             else if mpa
             then map_sum id Some (resolve path_resolve cwd (Str ''public/index.html''))
             else map_sum id Some (resolve path_resolve cwd (Str ''index.html''))))"

section \<open>resolveId and load\<close>

text \<open>
  The page name that \<open>resolveId\<close> leaves in the shared variable; \<open>ident\<close> is the
  identifier after \<open>normalizePath\<close> and \<open>old\<close> the variable's value before the call.
\<close>

definition resolveId_pageName :: "options \<Rightarrow> bool \<Rightarrow> string \<Rightarrow> string \<Rightarrow> string" where
  "resolveId_pageName opts mpa old ident =
     (if \<not> onlyUseEjsAndMinify opts \<and> endsWith ident ''.html''
      then (if \<not> mpa then old
            else (case last_of (split_str (dirname ident) ''/'') of
                    None \<Rightarrow> []
                  | Some seg \<Rightarrow> seg))
      else old)"

text \<open>The page name that \<open>load\<close> computes for an identifier ending in \<open>.html\<close>.\<close>

definition load_pageName :: "options \<Rightarrow> string \<Rightarrow> error + string" where
  "load_pageName opts ident =
     (case last_of (split_str (dirname ident) (pagesDir opts)) of
        None \<Rightarrow> Inl TypeError
      | Some piece \<Rightarrow> Inr (remove_slashes piece))"

text \<open>
  The template path of \<open>load\<close>; \<open>existsSync\<close> is \<open>fs.existsSync\<close>. The result
  \<open>None\<close> of the whole step is the \<open>null\<close> returned for other identifiers.
\<close>

definition load_templatePath ::
  "(obj \<Rightarrow> string list \<Rightarrow> error + obj) \<Rightarrow> ((string \<rightharpoonup> obj) option \<Rightarrow> error + bool) \<Rightarrow>
   (string \<Rightarrow> string \<Rightarrow> string) \<Rightarrow> string \<Rightarrow> (string \<Rightarrow> bool) \<Rightarrow> options \<Rightarrow> string \<Rightarrow>
   error + string option" where
  "load_templatePath pick isPlainObject path_resolve cwd existsSync opts ident =
     (if endsWith ident ''.html''
      then (case load_pageName opts ident of
              Inl e \<Rightarrow> Inl e
            | Inr pageName \<Rightarrow>
               (case getPageData pick isPlainObject opts pageName of
                  Inl e \<Rightarrow> Inl e
                | Inr page \<Rightarrow>
                   (let publicIndexHtml = path_resolve cwd ''public/index.html'';
                        indexHtml = path_resolve cwd ''index.html'';
                        templateOption = read_prop page ''template''
                    in if truthy templateOption
                       then map_sum id Some (resolve path_resolve cwd templateOption)
                       else if existsSync publicIndexHtml then Inr (Some publicIndexHtml)
                       else Inr (Some indexHtml))))
      else Inr None)"

section \<open>configResolved: the output naming patterns\<close>

definition deref :: "obj list \<Rightarrow> nat option \<Rightarrow> obj option" where
  "deref h r = (case r of None \<Rightarrow> None | Some a \<Rightarrow> Some (h ! a))"

text \<open>Reading or writing a property of \<open>undefined\<close> throws a TypeError.\<close>

definition get_field :: "obj list \<Rightarrow> nat option \<Rightarrow> string \<Rightarrow> error + jsval" where
  "get_field h r k = (case r of None \<Rightarrow> Inl TypeError | Some a \<Rightarrow> Inr (read_prop (h ! a) k))"

definition set_field :: "obj list \<Rightarrow> nat option \<Rightarrow> string \<Rightarrow> jsval \<Rightarrow> error + obj list" where
  "set_field h r k v =
     (case r of None \<Rightarrow> Inl TypeError | Some a \<Rightarrow> Inr (h[a := (h ! a)(k \<mapsto> v)]))"

text \<open>\<open>rollupOptions.output = { ... }\<close>: a fresh object is stored and referenced.\<close>

definition assign_output :: "resolvedConfig \<Rightarrow> obj \<Rightarrow> resolvedConfig" where
  "assign_output c ob = c\<lparr>heap := heap c @ [ob], rollup_output := Some (length (heap c))\<rparr>"

definition output_value :: "resolvedConfig \<Rightarrow> obj option" where
  "output_value c = deref (heap c) (rollup_output c)"

text \<open>The entries of \<open>_input\<close>, assigned key by key.\<close>

definition prefix_keys :: "string \<Rightarrow> (string \<times> string) list \<Rightarrow> (string \<times> string) list" where
  "prefix_keys pre inp = fold (\<lambda>(key, v) acc. AList.update (pre @ key) v acc) inp []"

definition buildAssets :: "string \<Rightarrow> obj" where
  "buildAssets assetDir =
     [''entryFileNames'' \<mapsto> Str (assetDir @ ''/[name].js''),
      ''chunkFileNames'' \<mapsto> Str (assetDir @ ''/[name].js''),
      ''assetFileNames'' \<mapsto> Str (assetDir @ ''/[name].[ext]'')]"

text \<open>
  One of the three blocks \<open>if (buildXDirName) { if (htmlHash || !String(_output.k)?.includes('[hash]'))
  _output.k = unhashed else _output.k = hashed }\<close>. With \<open>htmlHash\<close> set the property is
  not read, only written.
\<close>

definition dir_override ::
  "bool \<Rightarrow> nat option \<Rightarrow> string \<Rightarrow> string \<Rightarrow> string \<Rightarrow> string \<Rightarrow> obj list \<Rightarrow> error + obj list" where
  "dir_override hash out_ref k dirName unhashed hashed h =
     (if dirName = [] then Inr h
      else if hash then set_field h out_ref k (Str unhashed)
      else (case get_field h out_ref k of
              Inl e \<Rightarrow> Inl e
            | Inr v \<Rightarrow>
               if \<not> includes_str (to_String v) ''[hash]''
               then set_field h out_ref k (Str unhashed)
               else set_field h out_ref k (Str hashed)))"

text \<open>
  The hook. \<open>isBuild\<close> is the module's flag, \<open>mpa\<close> the value of \<open>isMpa(resolvedConfig)\<close>,
  \<open>path_resolve\<close> stands for \<open>path.resolve\<close>.
\<close>

definition configResolved ::
  "(string \<Rightarrow> string \<Rightarrow> string) \<Rightarrow> options \<Rightarrow> bool \<Rightarrow> bool \<Rightarrow> resolvedConfig \<Rightarrow>
   error + resolvedConfig" where
  "configResolved path_resolve opts isBuild mpa c =
     (let cfg = buildCfg opts;
          assetDir = (if build_assetsDir c = [] then ''assets'' else build_assetsDir c)
      in if \<not> onlyUseEjsAndMinify opts \<and> mpa
         then
           (let out_ref = rollup_output c
            in case (if buildPrefixName cfg \<noteq> []
                     then (case rollup_input c of
                             None \<Rightarrow> Inl TypeError
                           | Some inp \<Rightarrow>
                              Inr (c\<lparr>rollup_input :=
                                      Some (prefix_keys
                                              (if isBuild then buildPrefixName cfg else []) inp)\<rparr>))
                     else Inr c) of
                 Inl e \<Rightarrow> Inl e
               | Inr c1 \<Rightarrow>
                  (let c2 = (if htmlHash cfg
                             then (case deref (heap c1) (rollup_output c1) of
                                     Some buildOutput \<Rightarrow>
                                       assign_output c1
                                         (spread (Some buildOutput) (Some (buildAssets assetDir)))
                                   | None \<Rightarrow> assign_output c1 (buildAssets assetDir))
                             else c1)
                   in case dir_override (htmlHash cfg) out_ref ''assetFileNames''
                             (buildAssetDirName cfg)
                             (assetDir @ ''/'' @ buildAssetDirName cfg @ ''/[name].[ext]'')
                             (assetDir @ ''/'' @ buildAssetDirName cfg @ ''/[name]-[hash].[ext]'')
                             (heap c2) of
                        Inl e \<Rightarrow> Inl e
                      | Inr h3 \<Rightarrow>
                  (case dir_override (htmlHash cfg) out_ref ''chunkFileNames''
                             (buildChunkDirName cfg)
                             (assetDir @ ''/'' @ buildChunkDirName cfg @ ''/[name].js'')
                             (assetDir @ ''/'' @ buildChunkDirName cfg @ ''/[name]-[hash].js'')
                             h3 of
                        Inl e \<Rightarrow> Inl e
                      | Inr h4 \<Rightarrow>
                  (case dir_override (htmlHash cfg) out_ref ''entryFileNames''
                             (buildEntryDirName cfg)
                             (assetDir @ ''/'' @ buildEntryDirName cfg @ ''/[name].js'')
                             (assetDir @ ''/'' @ buildEntryDirName cfg @ ''/[name]-[hash].js'')
                             h4 of
                        Inl e \<Rightarrow> Inl e
                      | Inr h5 \<Rightarrow>
                         Inr (assign_output (c2\<lparr>heap := h5\<rparr>)
                                (spread (deref h5 (rollup_output c2)) (deref h5 out_ref)))))))
         else if \<not> isBuild \<and> truthy (read_prop (props opts) ''template'') \<and> rollup_input c = None
         then (case resolve path_resolve (root c) (read_prop (props opts) ''template'') of
                 Inl e \<Rightarrow> Inl e
               | Inr p \<Rightarrow> Inr (c\<lparr>rollup_input := Some [(''main'', p)]\<rparr>))
         else Inr c)"

text \<open>
  A resolved configuration as the host hands it over: the output object, when there is
  one, is the only object in the store.
\<close>

definition host_config ::
  "string \<Rightarrow> string \<Rightarrow> (string \<times> string) list option \<Rightarrow> obj option \<Rightarrow> resolvedConfig" where
  "host_config assets rt inp out =
     \<lparr>build_assetsDir = assets, root = rt, rollup_input = inp,
      rollup_output = (case out of None \<Rightarrow> None | Some ob \<Rightarrow> Some 0),
      heap = (case out of None \<Rightarrow> [] | Some ob \<Rightarrow> [ob])\<rparr>"

text \<open>\<open>config.build.rollupOptions.output?.[k]\<close> once the hook has run (or its exception).\<close>

definition final_pattern :: "error + resolvedConfig \<Rightarrow> string \<Rightarrow> error + jsval" where
  "final_pattern r k =
     (case r of
        Inl e \<Rightarrow> Inl e
      | Inr c \<Rightarrow> (case output_value c of None \<Rightarrow> Inr Undefined | Some ob \<Rightarrow> Inr (read_prop ob k)))"

section \<open>The default options\<close>

text \<open>
  The options of a plugin instance created without arguments; none of the common page
  fields is set.
\<close>

definition default_buildCfg :: buildCfg where
  "default_buildCfg =
     \<lparr>moveHtmlTop = True, moveHtmlDirTop = False, buildPrefixName = [], htmlHash = False,
      buildAssetDirName = [], buildChunkDirName = [], buildEntryDirName = [],
      htmlPrefixSearchValue = [], htmlPrefixReplaceValue = []\<rparr>"

definition default_options :: options where
  "default_options =
     \<lparr>props = Map.empty, pages = Some Map.empty, pagesDir = ''src/views'',
      buildCfg = default_buildCfg, minify = True, onlyUseEjsAndMinify = False\<rparr>"

section \<open>Lemmas on the string functions\<close>

lemma includes_single: "includes_str s [c] = (c \<in> set s)"
  by (induction s) auto

lemma split_from_nonempty: "split_from sep acc s \<noteq> []"
  by (induction sep acc s rule: split_from.induct) auto

lemma split_from_no_sep:
  "sep \<noteq> [] \<Longrightarrow> \<not> includes_str s sep \<Longrightarrow> split_from sep acc s = [rev acc @ s]"
  by (induction s arbitrary: acc) auto


lemma last_split_slash:
  "CHR ''/'' \<notin> set seg \<Longrightarrow> last (split_from ''/'' acc (A @ ''/'' @ seg)) = seg"
proof (induction A arbitrary: acc)
  case Nil
  then show ?case by (simp add: split_from_no_sep includes_single)
next
  case (Cons a A)
  show ?case
  proof (cases "a = CHR ''/''")
    case True
    then show ?thesis
      using Cons.IH[OF Cons.prems, of "[]"] by (simp add: split_from_nonempty)
  next
    case False
    then show ?thesis
      using Cons.IH[OF Cons.prems, of "a # acc"] by simp
  qed
qed

lemma prefix_in_front:
  "prefix sep (xs @ ys) \<Longrightarrow> length sep \<le> length xs \<Longrightarrow> prefix sep xs"
  by (metis prefix_length_prefix prefixI)

text \<open>
  When the separator does not occur in \<open>pre @ sep\<close> before its last position, the
  first cut of \<open>pre @ sep @ rest\<close> is right after \<open>pre\<close>.
\<close>

lemma split_from_first_occurrence:
  assumes "sep \<noteq> []"
  shows "\<not> includes_str (butlast (pre @ sep)) sep \<Longrightarrow>
         split_from sep acc (pre @ sep @ rest) = (rev acc @ pre) # split_from sep [] rest"
proof (induction pre arbitrary: acc)
  case Nil
  obtain c cs where s: "sep = c # cs" using assms by (cases sep) auto
  show ?case using s by simp
next
  case (Cons a pre)
  have bl: "butlast ((a # pre) @ sep) = a # butlast (pre @ sep)" using assms by simp
  have np: "\<not> prefix sep (a # pre @ sep @ rest)"
  proof
    assume p: "prefix sep (a # pre @ sep @ rest)"
    have "a # pre @ sep @ rest = (a # butlast (pre @ sep)) @ (last sep # rest)"
      using assms by (simp add: butlast_append)
    moreover have "length sep \<le> length (a # butlast (pre @ sep))" by simp
    ultimately have "prefix sep (a # butlast (pre @ sep))" using p prefix_in_front by metis
    then show False using Cons.prems bl by simp
  qed
  have "\<not> includes_str (butlast (pre @ sep)) sep" using Cons.prems bl by simp
  from Cons.IH[OF this] np show ?case by simp
qed

lemma dropWhile_until:
  "c \<notin> set xs \<Longrightarrow> dropWhile (\<lambda>x. x \<noteq> c) (xs @ c # ys) = c # ys"
  by (induction xs) auto

lemma remove_slashes_id: "CHR ''/'' \<notin> set s \<Longrightarrow> remove_slashes s = s"
  by (induction s) (auto simp: remove_slashes_def)

lemma dirname_parent:
  assumes "file \<noteq> []" and "CHR ''/'' \<notin> set file" and "X \<noteq> []" and "X \<noteq> ''/''"
  shows "dirname (X @ ''/'' @ file) = X"
proof -
  from assms(3) obtain c X' where X: "X = c # X'"
    by (cases X) auto
  with assms(4) have ne: "X' \<noteq> [] \<or> c \<noteq> CHR ''/''" by auto
  obtain y ys where ry: "rev file = y # ys" using assms(1) by (cases "rev file") auto
  then have "y = last file" by (metis last_rev list.sel(1) rev_rev_ident)
  then have "y \<noteq> CHR ''/''" using assms(1,2) last_in_set by metis
  then have d1: "dropWhile (\<lambda>x. x = CHR ''/'') (rev (X' @ ''/'' @ file)) = rev file @ ''/'' @ rev X'"
    using ry by simp
  have d2: "dropWhile (\<lambda>x. x \<noteq> CHR ''/'') (rev file @ ''/'' @ rev X') = CHR ''/'' # rev X'"
    using assms(2) by (simp add: dropWhile_until)
  show ?thesis using X ne d1 d2 by (auto simp: dirname_def)
qed

section \<open>Page names in dev mode\<close>

lemma match_here:
  "prefix (p @ ''/'') s \<Longrightarrow> greedy_to_slash (drop (length p + 1) s) = Some g \<Longrightarrow>
   match_pagesDir p s = Some g"
  by (cases s) auto

lemma greedy_to_slash_segment:
  assumes "CHR ''/'' \<notin> set foo" and "\<forall>c\<in>set foo. \<not> line_terminator c"
    and "CHR ''/'' \<notin> set bar"
  shows "greedy_to_slash (foo @ ''/'' @ bar) = Some foo"
proof -
  let ?P = "\<lambda>c. \<not> line_terminator c"
  have line: "takeWhile ?P (foo @ ''/'' @ bar) = foo @ ''/'' @ takeWhile ?P bar"
    using assms(2) by (simp add: takeWhile_append2 line_terminator_def)
  have nb: "CHR ''/'' \<notin> set (rev (takeWhile ?P bar))"
    using assms(3) by (auto dest: set_takeWhileD)
  have "dropWhile (\<lambda>c. c \<noteq> CHR ''/'') (rev (foo @ ''/'' @ takeWhile ?P bar))
          = CHR ''/'' # rev foo"
    using dropWhile_until[OF nb] by simp
  with line show ?thesis
    by (simp add: greedy_to_slash_def Let_def)
qed

text \<open>
  C1 (as amended). The middleware prepends \<open>pagesDir\<close> to the request's original URL
  and matches the result. For an original URL \<open>/foo/bar\<close>, where \<open>foo\<close> is a non-empty
  segment (no slash, no line terminator) and \<open>bar\<close> has no slash, the page name is
  \<open>foo\<close>, for every \<open>pagesDir\<close> free of regular-expression syntax.
\<close>

theorem dev_pageName_first_segment:
  assumes "regex_literal pgDir"
    and "foo \<noteq> []" and "CHR ''/'' \<notin> set foo" and "\<forall>c\<in>set foo. \<not> line_terminator c"
    and "CHR ''/'' \<notin> set bar"
  shows "dev_pageName pgDir (''/'' @ foo @ ''/'' @ bar) = foo"
proof -
  let ?url = "pgDir @ ''/'' @ foo @ ''/'' @ bar"
  have "greedy_to_slash (drop (length pgDir + 1) ?url) = Some foo"
    using greedy_to_slash_segment[OF assms(3,4,5)] by simp
  moreover have "prefix (pgDir @ ''/'') ?url" by simp
  ultimately have "match_pagesDir pgDir ?url = Some foo" by (rule match_here[rotated])
  moreover have "?url \<noteq> ''/''" using assms(2) by (cases pgDir) auto
  ultimately show ?thesis using assms(2) by (simp add: dev_pageName_def Let_def)
qed

theorem dev_pageName_first_segment_witness:
  "regex_literal ''src/views'' \<and> dev_pageName ''src/views'' (''/'' @ ''foo'' @ ''/'' @ ''index.html'') = ''foo''"
proof -
  have l: "regex_literal ''src/views''" by (simp add: regex_literal_def)
  have "dev_pageName ''src/views'' (''/'' @ ''foo'' @ ''/'' @ ''index.html'') = ''foo''"
    by (rule dev_pageName_first_segment[OF l]) (simp_all add: line_terminator_def)
  with l show ?thesis by (rule conjI)
qed

text \<open>
  C1 as stated fails: for the request path \<open>/src/views/foo/index.html\<close> and the default
  \<open>pagesDir\<close> the matched text is \<open>src/views/src/views/foo/index.html\<close>, and the
  greedy group yields \<open>src/views/foo\<close>, not \<open>foo\<close>.
\<close>

theorem dev_pageName_full_path_counterexample:
  "dev_pageName (pagesDir default_options) ''/src/views/foo/index.html'' = ''src/views/foo'' \<and>
   dev_pageName (pagesDir default_options) ''/src/views/foo/index.html'' \<noteq> ''foo''"
  by (simp add: default_options_def dev_pageName_def greedy_to_slash_def line_terminator_def)

section \<open>Page names in build mode\<close>

text \<open>
  C3 (as amended). For an identifier \<open>dpre @ seg @ ''/'' @ file\<close> ending in \<open>.html\<close>,
  where \<open>seg\<close> is the non-empty name of the directory holding the file (\<open>dpre\<close> is
  empty or ends in a slash), \<open>resolveId\<close> in MPA mode assigns \<open>seg\<close>. \<open>load\<close> assigns
  \<open>seg\<close> when that directory lies directly below \<open>pagesDir\<close>: \<open>dpre\<close> is
  \<open>pre @ pagesDir @ ''/''\<close>, this occurrence of \<open>pagesDir\<close> is the first one in the
  identifier, and \<open>pagesDir\<close> does not occur in \<open>''/'' @ seg\<close>.
\<close>

theorem build_pageName_parent_directory:
  assumes "\<not> onlyUseEjsAndMinify opts"
    and "endsWith (dpre @ seg @ ''/'' @ file) ''.html''"
    and "dpre = [] \<or> (\<exists>A. dpre = A @ ''/'')"
    and "seg \<noteq> []" and "CHR ''/'' \<notin> set seg"
    and "file \<noteq> []" and "CHR ''/'' \<notin> set file"
  shows "resolveId_pageName opts True old (dpre @ seg @ ''/'' @ file) = seg \<and>
         (pagesDir opts \<noteq> [] \<and> dpre = pre @ pagesDir opts @ ''/'' \<and>
          \<not> includes_str (butlast (pre @ pagesDir opts)) (pagesDir opts) \<and>
          \<not> includes_str (''/'' @ seg) (pagesDir opts) \<longrightarrow>
          load_pageName opts (dpre @ seg @ ''/'' @ file) = Inr seg)"
proof -
  have X: "dpre @ seg \<noteq> []" "dpre @ seg \<noteq> ''/''"
    using assms(3,4,5) by (auto simp: append_eq_Cons_conv)
  have dn: "dirname (dpre @ seg @ ''/'' @ file) = dpre @ seg"
    using dirname_parent[OF assms(6,7) X] by simp
  have "last (split_str (dpre @ seg) ''/'') = seg"
    using assms(3)
  proof
    assume "dpre = []"
    then show ?thesis using assms(5)
      by (simp add: split_str_def split_from_no_sep includes_single)
  next
    assume "\<exists>A. dpre = A @ ''/''"
    then obtain A where "dpre = A @ ''/''" by blast
    then show ?thesis using last_split_slash[OF assms(5), of "[]" A]
      by (simp add: split_str_def)
  qed
  then have r: "resolveId_pageName opts True old (dpre @ seg @ ''/'' @ file) = seg"
    using assms(1,2) dn
    by (simp add: resolveId_pageName_def last_of_def split_str_def split_from_nonempty)
  have l: "load_pageName opts (dpre @ seg @ ''/'' @ file) = Inr seg"
    if h: "pagesDir opts \<noteq> []" "dpre = pre @ pagesDir opts @ ''/''"
      "\<not> includes_str (butlast (pre @ pagesDir opts)) (pagesDir opts)"
      "\<not> includes_str (''/'' @ seg) (pagesDir opts)"
  proof -
    have "split_str (dpre @ seg) (pagesDir opts) = [pre, ''/'' @ seg]"
      using split_from_first_occurrence[OF h(1) h(3), of "[]" "''/'' @ seg"]
        split_from_no_sep[OF h(1) h(4), of "[]"] h(1,2)
      by (simp add: split_str_def)
    then show ?thesis using dn remove_slashes_id[OF assms(5)]
      by (simp add: load_pageName_def last_of_def remove_slashes_def)
  qed
  from r l show ?thesis by blast
qed

theorem build_pageName_parent_directory_witness:
  "resolveId_pageName default_options True ''index''
     (''/project/src/views/'' @ ''test-one'' @ ''/'' @ ''index.html'') = ''test-one'' \<and>
   load_pageName default_options
     (''/project/src/views/'' @ ''test-one'' @ ''/'' @ ''index.html'') = Inr ''test-one''"
proof -
  have "resolveId_pageName default_options True ''index''
          (''/project/src/views/'' @ ''test-one'' @ ''/'' @ ''index.html'') = ''test-one'' \<and>
        (pagesDir default_options \<noteq> [] \<and>
         ''/project/src/views/'' = ''/project/'' @ pagesDir default_options @ ''/'' \<and>
         \<not> includes_str (butlast (''/project/'' @ pagesDir default_options))
              (pagesDir default_options) \<and>
         \<not> includes_str (''/'' @ ''test-one'') (pagesDir default_options) \<longrightarrow>
         load_pageName default_options
           (''/project/src/views/'' @ ''test-one'' @ ''/'' @ ''index.html'') = Inr ''test-one'')"
    by (rule build_pageName_parent_directory)
       (simp_all add: default_options_def endsWith_def suffix_def)
  moreover have "pagesDir default_options \<noteq> [] \<and>
         ''/project/src/views/'' = ''/project/'' @ pagesDir default_options @ ''/'' \<and>
         \<not> includes_str (butlast (''/project/'' @ pagesDir default_options))
              (pagesDir default_options) \<and>
         \<not> includes_str (''/'' @ ''test-one'') (pagesDir default_options)"
    by (simp add: default_options_def)
  ultimately show ?thesis by blast
qed

text \<open>
  C3 as stated fails for \<open>load\<close>: for \<open>src/views/a/b/index.html\<close>, two directories below
  the default \<open>pagesDir\<close>, the parent directory segment is \<open>b\<close> but \<open>load\<close> assigns
  \<open>ab\<close>.
\<close>

theorem load_pageName_nested_counterexample:
  "last (split_str (dirname ''src/views/a/b/index.html'') ''/'') = ''b'' \<and>
   load_pageName default_options ''src/views/a/b/index.html'' = Inr ''ab''"
  by (simp add: load_pageName_def default_options_def dirname_def split_str_def last_of_def
      remove_slashes_def)

section \<open>Page descriptors and template paths\<close>

text \<open>
  C7. Provided the helper \<open>pick\<close> keeps the listed fields of an object and neither
  helper throws, \<open>getPageData\<close> returns a descriptor for every page name. Field by
  field: when the pages object is absent, empty or has no entry for the page name, field
  \<open>k\<close> of the result is the field of the options if \<open>k\<close> is one of \<open>template\<close>,
  \<open>title\<close>, \<open>entry\<close>, \<open>filename\<close>, \<open>urlParams\<close>, \<open>inject\<close> and absent otherwise,
  whatever the page name; when the page has an entry, a field of the entry wins and the
  common field stands in where the entry has none.
\<close>

theorem getPageData_defaults_and_merge:
  assumes pk: "\<forall>ob ks. pick ob ks = Inr (restrict_map ob (set ks))"
    and ipo: "\<forall>v. \<exists>b. isPlainObject v = Inr b"
  shows "\<exists>page. getPageData pick isPlainObject opts p = Inr page \<and>
           (\<forall>k. page k =
              (case (case pages opts of None \<Rightarrow> None | Some ps \<Rightarrow> ps p) of
                 None \<Rightarrow>
                   (if k \<in> {''template'', ''title'', ''entry'', ''filename'', ''urlParams'', ''inject''}
                    then props opts k else None)
               | Some pg \<Rightarrow>
                  (case pg k of
                     Some v \<Rightarrow> Some v
                   | None \<Rightarrow>
                      (if k \<in> {''template'', ''title'', ''entry'', ''filename'', ''urlParams'',
                                 ''inject''}
                       then props opts k else None))))"
proof -
  obtain b where b: "isPlainObject (pages opts) = Inr b" using ipo by blast
  have c: "pick (props opts) commonKeys = Inr (restrict_map (props opts) (set commonKeys))"
    using pk by simp
  let ?entry = "case pages opts of None \<Rightarrow> None | Some ps \<Rightarrow> ps p"
  let ?page = "restrict_map (props opts) (set commonKeys) ++
                 (case ?entry of None \<Rightarrow> Map.empty | Some pg \<Rightarrow> pg)"
  have g: "getPageData pick isPlainObject opts p = Inr ?page"
    using b c
    by (cases "pages opts")
       (auto simp: getPageData_def isEmptyObject_def spread_def split: option.splits)
  have f: "\<forall>k. ?page k =
              (case ?entry of
                 None \<Rightarrow>
                   (if k \<in> {''template'', ''title'', ''entry'', ''filename'', ''urlParams'', ''inject''}
                    then props opts k else None)
               | Some pg \<Rightarrow>
                  (case pg k of
                     Some v \<Rightarrow> Some v
                   | None \<Rightarrow>
                      (if k \<in> {''template'', ''title'', ''entry'', ''filename'', ''urlParams'',
                                 ''inject''}
                       then props opts k else None)))"
    by (simp add: restrict_map_def map_add_def commonKeys_def split: option.splits)
  from g f show ?thesis by blast
qed

theorem getPageData_defaults_and_merge_witness:
  "(\<exists>page. getPageData (\<lambda>ob ks. Inr (restrict_map ob (set ks))) (\<lambda>v. Inr (v \<noteq> None))
       (default_options\<lparr>props := [''template'' \<mapsto> Str ''t.html'', ''title'' \<mapsto> Str ''Site'',
                                   ''entry'' \<mapsto> Str ''main'', ''filename'' \<mapsto> Str ''out.html'',
                                   ''urlParams'' \<mapsto> Str ''a=1'', ''inject'' \<mapsto> Object [],
                                   ''jumpTarget'' \<mapsto> Str ''_self''],
                         pages := Some [''foo'' \<mapsto> [''title'' \<mapsto> Str ''Foo'',
                                                       ''jumpTarget'' \<mapsto> Str ''_blank'']]\<rparr>)
       ''foo'' = Inr page \<and>
     page ''template'' = Some (Str ''t.html'') \<and> page ''title'' = Some (Str ''Foo'') \<and>
     page ''entry'' = Some (Str ''main'') \<and> page ''filename'' = Some (Str ''out.html'') \<and>
     page ''urlParams'' = Some (Str ''a=1'') \<and> page ''inject'' = Some (Object []) \<and>
     page ''jumpTarget'' = Some (Str ''_blank'') \<and> page ''pagesDir'' = None) \<and>
   (\<exists>page. getPageData (\<lambda>ob ks. Inr (restrict_map ob (set ks))) (\<lambda>v. Inr (v \<noteq> None))
       (default_options\<lparr>props := [''template'' \<mapsto> Str ''t.html'', ''title'' \<mapsto> Str ''Site'',
                                   ''entry'' \<mapsto> Str ''main'', ''filename'' \<mapsto> Str ''out.html'',
                                   ''urlParams'' \<mapsto> Str ''a=1'', ''inject'' \<mapsto> Object [],
                                   ''jumpTarget'' \<mapsto> Str ''_self''],
                         pages := Some [''foo'' \<mapsto> [''title'' \<mapsto> Str ''Foo'',
                                                       ''jumpTarget'' \<mapsto> Str ''_blank'']]\<rparr>)
       ''bar'' = Inr page \<and>
     page ''template'' = Some (Str ''t.html'') \<and> page ''title'' = Some (Str ''Site'') \<and>
     page ''entry'' = Some (Str ''main'') \<and> page ''filename'' = Some (Str ''out.html'') \<and>
     page ''urlParams'' = Some (Str ''a=1'') \<and> page ''inject'' = Some (Object []) \<and>
     page ''jumpTarget'' = None)"
proof -
  let ?pick = "\<lambda>(ob :: obj) (ks :: string list). (Inr (restrict_map ob (set ks)) :: error + obj)"
  let ?ipo = "\<lambda>v :: (string \<rightharpoonup> obj) option. (Inr (v \<noteq> None) :: error + bool)"
  let ?opts = "default_options\<lparr>props := [''template'' \<mapsto> Str ''t.html'', ''title'' \<mapsto> Str ''Site'',
                                   ''entry'' \<mapsto> Str ''main'', ''filename'' \<mapsto> Str ''out.html'',
                                   ''urlParams'' \<mapsto> Str ''a=1'', ''inject'' \<mapsto> Object [],
                                   ''jumpTarget'' \<mapsto> Str ''_self''],
                         pages := Some [''foo'' \<mapsto> [''title'' \<mapsto> Str ''Foo'',
                                                       ''jumpTarget'' \<mapsto> Str ''_blank'']]\<rparr>"
  have pk: "\<forall>ob ks. ?pick ob ks = Inr (restrict_map ob (set ks))" by simp
  have ipo: "\<forall>v. \<exists>b. ?ipo v = Inr b" by simp
  obtain foo where foo: "getPageData ?pick ?ipo ?opts ''foo'' = Inr foo"
    and ffoo: "\<And>k. foo k =
              (case (case pages ?opts of None \<Rightarrow> None | Some ps \<Rightarrow> ps ''foo'') of
                 None \<Rightarrow>
                   (if k \<in> {''template'', ''title'', ''entry'', ''filename'', ''urlParams'', ''inject''}
                    then props ?opts k else None)
               | Some pg \<Rightarrow>
                  (case pg k of
                     Some v \<Rightarrow> Some v
                   | None \<Rightarrow>
                      (if k \<in> {''template'', ''title'', ''entry'', ''filename'', ''urlParams'',
                                 ''inject''}
                       then props ?opts k else None)))"
    using getPageData_defaults_and_merge[OF pk ipo, of ?opts "''foo''"] by blast
  obtain bar where bar: "getPageData ?pick ?ipo ?opts ''bar'' = Inr bar"
    and fbar: "\<And>k. bar k =
              (case (case pages ?opts of None \<Rightarrow> None | Some ps \<Rightarrow> ps ''bar'') of
                 None \<Rightarrow>
                   (if k \<in> {''template'', ''title'', ''entry'', ''filename'', ''urlParams'', ''inject''}
                    then props ?opts k else None)
               | Some pg \<Rightarrow>
                  (case pg k of
                     Some v \<Rightarrow> Some v
                   | None \<Rightarrow>
                      (if k \<in> {''template'', ''title'', ''entry'', ''filename'', ''urlParams'',
                                 ''inject''}
                       then props ?opts k else None)))"
    using getPageData_defaults_and_merge[OF pk ipo, of ?opts "''bar''"] by blast
  have "foo ''template'' = Some (Str ''t.html'') \<and> foo ''title'' = Some (Str ''Foo'') \<and>
     foo ''entry'' = Some (Str ''main'') \<and> foo ''filename'' = Some (Str ''out.html'') \<and>
     foo ''urlParams'' = Some (Str ''a=1'') \<and> foo ''inject'' = Some (Object []) \<and>
     foo ''jumpTarget'' = Some (Str ''_blank'') \<and> foo ''pagesDir'' = None"
    by (simp add: ffoo default_options_def)
  moreover have "bar ''template'' = Some (Str ''t.html'') \<and> bar ''title'' = Some (Str ''Site'') \<and>
     bar ''entry'' = Some (Str ''main'') \<and> bar ''filename'' = Some (Str ''out.html'') \<and>
     bar ''urlParams'' = Some (Str ''a=1'') \<and> bar ''inject'' = Some (Object []) \<and>
     bar ''jumpTarget'' = None"
    by (simp add: fbar default_options_def)
  ultimately show ?thesis using foo bar by blast
qed

text \<open>
  C8 (as amended). When the effective descriptor of the page has a non-empty string as
  its \<open>template\<close>, the template path is that string resolved against the working
  directory of the process (\<open>process.cwd()\<close>): in the middleware provided
  only-post-process mode is off, and in \<open>load\<close> for an identifier ending in \<open>.html\<close>.
  Neither \<open>mpa\<close>, nor \<open>existsSync\<close>, nor the configuration and its \<open>root\<close> has a say.
\<close>

theorem template_override_wins:
  "(\<not> onlyUseEjsAndMinify opts \<and> getPageData pick isPlainObject opts pageName = Inr page \<and>
    read_prop page ''template'' = Str t \<and> t \<noteq> [] \<longrightarrow>
    dev_templatePath pick isPlainObject path_resolve cwd opts mpa c pageName =
      Inr (Some (path_resolve cwd t))) \<and>
   (endsWith ident ''.html'' \<and> load_pageName opts ident = Inr loadName \<and>
    getPageData pick isPlainObject opts loadName = Inr page' \<and>
    read_prop page' ''template'' = Str t' \<and> t' \<noteq> [] \<longrightarrow>
    load_templatePath pick isPlainObject path_resolve cwd existsSync opts ident =
      Inr (Some (path_resolve cwd t')))"
  by (simp add: dev_templatePath_def load_templatePath_def Let_def resolve_def)

theorem template_override_wins_witness:
  "dev_templatePath (\<lambda>ob ks. Inr (restrict_map ob (set ks))) (\<lambda>v. Inr (v \<noteq> None))
     (\<lambda>base p. base @ ''/'' @ p) ''/project''
     (default_options\<lparr>pages := Some [''foo'' \<mapsto> [''template'' \<mapsto> Str ''tpl/foo.html'']]\<rparr>)
     True (host_config ''assets'' ''/project''
             (Some [(''foo'', ''/project/src/views/foo/index.html'')]) None)
     ''foo'' = Inr (Some ''/project/tpl/foo.html'') \<and>
   load_templatePath (\<lambda>ob ks. Inr (restrict_map ob (set ks))) (\<lambda>v. Inr (v \<noteq> None))
     (\<lambda>base p. base @ ''/'' @ p) ''/project'' (\<lambda>p. True)
     (default_options\<lparr>pages := Some [''foo'' \<mapsto> [''template'' \<mapsto> Str ''tpl/foo.html'']]\<rparr>)
     ''src/views/foo/index.html'' = Inr (Some ''/project/tpl/foo.html'')"
proof -
  let ?pick = "\<lambda>(ob :: obj) (ks :: string list). (Inr (restrict_map ob (set ks)) :: error + obj)"
  let ?ipo = "\<lambda>v :: (string \<rightharpoonup> obj) option. (Inr (v \<noteq> None) :: error + bool)"
  let ?opts = "default_options\<lparr>pages := Some [''foo'' \<mapsto> [''template'' \<mapsto> Str ''tpl/foo.html'']]\<rparr>"
  let ?page = "[''template'' \<mapsto> Str ''tpl/foo.html'']"
  have a: "\<not> onlyUseEjsAndMinify ?opts" by (simp add: default_options_def)
  have b: "getPageData ?pick ?ipo ?opts ''foo'' = Inr ?page"
    by (simp add: getPageData_def isEmptyObject_def spread_def default_options_def)
  have r: "read_prop ?page ''template'' = Str ''tpl/foo.html''" by (simp add: read_prop_def)
  have c: "endsWith ''src/views/foo/index.html'' ''.html''"
    by (simp add: endsWith_def suffix_def)
  have d: "load_pageName ?opts ''src/views/foo/index.html'' = Inr ''foo''"
    by (simp add: load_pageName_def default_options_def dirname_def split_str_def last_of_def
        remove_slashes_def)
  show ?thesis
    using template_override_wins[of ?opts ?pick ?ipo "''foo''" ?page "''tpl/foo.html''"
        "\<lambda>base p. base @ ''/'' @ p" "''/project''" True
        "host_config ''assets'' ''/project'' (Some [(''foo'', ''/project/src/views/foo/index.html'')]) None"
        "''src/views/foo/index.html''" "''foo''" ?page "''tpl/foo.html''" "\<lambda>p. True"] a b r c d
    by simp
qed

text \<open>
  C8 as stated fails in two ways. The override is resolved against \<open>process.cwd()\<close>,
  not against the project root of the configuration: with the working directory
  \<open>/work\<close> and the root \<open>/project\<close> the template \<open>tpl/foo.html\<close> resolves to
  \<open>/work/tpl/foo.html\<close>. And a template that is set to the empty string does not win:
  the middleware in MPA mode then takes \<open>public/index.html\<close>.
\<close>

theorem template_override_root_counterexample:
  "dev_templatePath (\<lambda>ob ks. Inr (restrict_map ob (set ks))) (\<lambda>v. Inr (v \<noteq> None))
     (\<lambda>base p. base @ ''/'' @ p) ''/work''
     (default_options\<lparr>pages := Some [''foo'' \<mapsto> [''template'' \<mapsto> Str ''tpl/foo.html'']]\<rparr>)
     True (host_config ''assets'' ''/project''
             (Some [(''foo'', ''/project/src/views/foo/index.html'')]) None)
     ''foo'' = Inr (Some ''/work/tpl/foo.html'') \<and>
   (\<lambda>base p. base @ ''/'' @ p)
     (root (host_config ''assets'' ''/project''
              (Some [(''foo'', ''/project/src/views/foo/index.html'')]) None))
     ''tpl/foo.html'' = ''/project/tpl/foo.html'' \<and>
   dev_templatePath (\<lambda>ob ks. Inr (restrict_map ob (set ks))) (\<lambda>v. Inr (v \<noteq> None))
     (\<lambda>base p. base @ ''/'' @ p) ''/project''
     (default_options\<lparr>pages := Some [''foo'' \<mapsto> [''template'' \<mapsto> Str []]]\<rparr>)
     True (host_config ''assets'' ''/project''
             (Some [(''foo'', ''/project/src/views/foo/index.html'')]) None)
     ''foo'' = Inr (Some ''/project/public/index.html'')"
  by (simp add: dev_templatePath_def getPageData_def isEmptyObject_def spread_def
      default_options_def read_prop_def resolve_def host_config_def)

section \<open>Post-processing of the bundle\<close>











text \<open>
  C6 holds of the script references but not of the style references: the pattern for
  \<open>.css\<close> has an unescaped dot, so in a document with \<open>class=has-css\<close> the hyphen
  before \<open>css\<close> is replaced by a dot and the token is appended there too.
\<close>

theorem hash_tag_rewrites_other_text:
  "process_chunk Inr (\<lambda>search repl. Inr)
     (default_options\<lparr>buildCfg := default_buildCfg\<lparr>htmlHash := True\<rparr>\<rparr>) True
     ''0123456789abcdef''
     \<lparr>fileName = ''views/foo/index.html'', source = ''<link href=a.css><p class=has-css>''\<rparr>
   = Inr \<lparr>fileName = ''foo.html'',
          source = ''<link href=a.css?0123456789abcdef><p class=has.css?0123456789abcdef>''\<rparr>"
  by (simp add: process_chunk_def default_options_def default_buildCfg_def htmlName_def
      split_str_def backslashes_to_slashes_def index_text_def hash_tag_def line_terminator_def)

section \<open>The output naming patterns\<close>

lemma dir_override_None:
  "dir_override hash None k dirName unhashed hashed h =
     (if dirName = [] then Inr h else Inl TypeError)"
  by (simp add: dir_override_def set_field_def get_field_def)








text \<open>
  C10. In MPA mode with only-post-process off, when the configuration has no output
  object and at least one of the three directory names is configured, the hook throws a
  TypeError, with \<open>htmlHash\<close> set or not.
\<close>

theorem planner_throws_without_output:
  assumes "\<not> onlyUseEjsAndMinify opts" and "mpa"
    and "buildAssetDirName (buildCfg opts) \<noteq> [] \<or> buildChunkDirName (buildCfg opts) \<noteq> []
         \<or> buildEntryDirName (buildCfg opts) \<noteq> []"
  shows "configResolved pr opts isBuild mpa (host_config assets rt inp None) = Inl TypeError"
  using assms
  by (auto simp: configResolved_def Let_def host_config_def dir_override_None
      split: option.splits sum.splits)

theorem planner_throws_without_output_witness:
  "configResolved (\<lambda>a b. b)
     (default_options\<lparr>buildCfg := default_buildCfg\<lparr>htmlHash := True, buildChunkDirName := ''js''\<rparr>\<rparr>)
     True True (host_config ''assets'' ''/project'' (Some [(''foo'', ''/project/src/views/foo/index.html'')]) None)
   = Inl TypeError"
  by (rule planner_throws_without_output) (simp_all add: default_options_def default_buildCfg_def)

text \<open>
  C2 fails where the output object already has a pattern: with \<open>htmlHash\<close> set, no
  directory name configured and an output object whose \<open>entryFileNames\<close> is
  \<open>js/[name]-[hash].js\<close>, the final merge puts that old pattern back over the fixed
  one; only the patterns the old object lacks end as the fixed triple says.
\<close>

theorem hash_triple_overridden_by_old_output:
  "final_pattern
     (configResolved (\<lambda>a b. b) (default_options\<lparr>buildCfg := default_buildCfg\<lparr>htmlHash := True\<rparr>\<rparr>)
        True True
        (host_config ''assets'' ''/project'' (Some [(''foo'', ''/project/src/views/foo/index.html'')])
           (Some [''entryFileNames'' \<mapsto> Str ''js/[name]-[hash].js''])))
     ''entryFileNames'' = Inr (Str ''js/[name]-[hash].js'') \<and>
   final_pattern
     (configResolved (\<lambda>a b. b) (default_options\<lparr>buildCfg := default_buildCfg\<lparr>htmlHash := True\<rparr>\<rparr>)
        True True
        (host_config ''assets'' ''/project'' (Some [(''foo'', ''/project/src/views/foo/index.html'')])
           (Some [''entryFileNames'' \<mapsto> Str ''js/[name]-[hash].js''])))
     ''chunkFileNames'' = Inr (Str ''assets/[name].js'')"
  by (simp add: final_pattern_def configResolved_def default_options_def
      default_buildCfg_def host_config_def Let_def deref_def assign_output_def dir_override_def
      output_value_def spread_def buildAssets_def read_prop_def)

end
